theory Spec2Isabelle
  imports Complex_Main
begin

section \<open>The values of the sketch\<close>

text \<open>
  The sketch \<^verbatim>\<open>StarField/sketch/CosmicSphere.ts\<close> is one class, \<^verbatim>\<open>CosmicSphere\<close>, with a
  constructor and the method \<^verbatim>\<open>drawSphere\<close>. A JavaScript \<^verbatim>\<open>number\<close> is modelled as a
  \<^typ>\<open>real\<close>: the arithmetic is the exact one, rounding of IEEE doubles and the values
  \<^verbatim>\<open>NaN\<close> and \<^verbatim>\<open>Infinity\<close> are not represented. The only division the method performs whose
  divisor is not a constant is by \<^verbatim>\<open>this.size * 2\<close>, so the model agrees with exact
  arithmetic on the source wherever \<^verbatim>\<open>this.size\<close> is not zero.
\<close>

text \<open>
  A \<^verbatim>\<open>p5.Vector\<close> is a mutable object with three components. Vectors live in a store and
  are handled through their address, since \<^verbatim>\<open>add\<close> and \<^verbatim>\<open>div\<close> change their receiver.
\<close>

record Vector =
  vx :: real
  vy :: real
  vz :: real

type_synonym addr = nat

text \<open>\<^verbatim>\<open>Vec4\<close>, the type of \<^verbatim>\<open>this.col\<close>, with the four fields the method reads.\<close>

record Vec4 =
  a :: real
  b :: real
  c :: real
  d :: real

text \<open>The fields of the class; \<^verbatim>\<open>pos\<close> holds a reference to a vector.\<close>

record CosmicSphere =
  size_s :: real
  pos :: addr
  col :: Vec4
  iterations :: real

text \<open>
  A \<^verbatim>\<open>p5.Color\<close> is kept as its four components, on the scale from 0 to 255 of the default
  colour mode, and every call on the drawing surface is recorded, in order, with its
  arguments.
\<close>

datatype Color = Color real real real real

datatype call =
    BlendMode string
  | Fill Color
  | Circle real real real
  | NoFill
  | Stroke Color
  | StrokeWeight real
  | Line real real real real

text \<open>
  The state a call of \<^verbatim>\<open>drawSphere\<close> runs in: the store of vectors with its next free
  address, the global variable \<^verbatim>\<open>lightSource\<close> (a reference to a vector), the random source
  (the angle that the k-th draw returns, and the number of draws made so far), and the
  calls made on the drawing surface so far.
\<close>

record state =
  heap :: "addr \<Rightarrow> Vector"
  next_addr :: addr
  lightSource :: addr
  rnd :: "nat \<Rightarrow> real"
  drawn :: nat
  canvas :: "call list"

datatype error = InvalidConfiguration

section \<open>The functions of p5 that the method calls\<close>

definition ADD :: string where
  "ADD = ''lighter''"


definition emit :: "call \<Rightarrow> state \<Rightarrow> state" where
  "emit k st = st\<lparr>canvas := canvas st @ [k]\<rparr>"

definition blendMode :: "string \<Rightarrow> state \<Rightarrow> state" where
  "blendMode m = emit (BlendMode m)"

definition fill :: "Color \<Rightarrow> state \<Rightarrow> state" where
  "fill k = emit (Fill k)"

definition circle :: "real \<Rightarrow> real \<Rightarrow> real \<Rightarrow> state \<Rightarrow> state" where
  "circle cx cy dia = emit (Circle cx cy dia)"

definition noFill :: "state \<Rightarrow> state" where
  "noFill = emit NoFill"

definition stroke :: "Color \<Rightarrow> state \<Rightarrow> state" where
  "stroke k = emit (Stroke k)"

definition strokeWeight :: "real \<Rightarrow> state \<Rightarrow> state" where
  "strokeWeight w = emit (StrokeWeight w)"

definition line :: "real \<Rightarrow> real \<Rightarrow> real \<Rightarrow> real \<Rightarrow> state \<Rightarrow> state" where
  "line x1 y1 x2 y2 = emit (Line x1 y1 x2 y2)"

text \<open>\<^verbatim>\<open>constrain(n, low, high)\<close> is \<^verbatim>\<open>Math.max(Math.min(n, high), low)\<close>.\<close>

definition constrain :: "real \<Rightarrow> real \<Rightarrow> real \<Rightarrow> real" where
  "constrain n low high = max (min n high) low"

text \<open>
  \<^verbatim>\<open>color(v1, v2, v3, alpha)\<close> in the default colour mode, RGB with the maximum 255 for
  every component: each of the four values is constrained to the range from 0 to 255, so
  \<^verbatim>\<open>color(255, 130, 255, -60)\<close> has the components 255, 130, 255, 0.
\<close>

definition color :: "real \<Rightarrow> real \<Rightarrow> real \<Rightarrow> real \<Rightarrow> Color" where
  "color v1 v2 v3 alpha =
     Color (constrain v1 0 255) (constrain v2 0 255) (constrain v3 0 255)
           (constrain alpha 0 255)"

text \<open>
  \<^verbatim>\<open>map(n, start1, stop1, start2, stop2, withinBounds)\<close>: the result is constrained to the
  target range only when \<^verbatim>\<open>withinBounds\<close> is given and true.
\<close>

definition map_p5 :: "real \<Rightarrow> real \<Rightarrow> real \<Rightarrow> real \<Rightarrow> real \<Rightarrow> bool \<Rightarrow> real" where
  "map_p5 n start1 stop1 start2 stop2 withinBounds =
     (let newval = (n - start1) / (stop1 - start1) * (stop2 - start2) + start2 in
      if \<not> withinBounds then newval
      else if start2 < stop2 then constrain newval start2 stop2
      else constrain newval stop2 start2)"

text \<open>\<^verbatim>\<open>v.dist(w)\<close> reads both vectors and changes neither.\<close>

definition Vector_dist :: "addr \<Rightarrow> addr \<Rightarrow> state \<Rightarrow> real" where
  "Vector_dist p q st =
     (let v = heap st p; w = heap st q in
      sqrt ((vx v - vx w)\<^sup>2 + (vy v - vy w)\<^sup>2 + (vz v - vz w)\<^sup>2))"

text \<open>\<^verbatim>\<open>v.add(w)\<close> adds \<^verbatim>\<open>w\<close> to \<^verbatim>\<open>v\<close> in place and returns \<^verbatim>\<open>v\<close> itself.\<close>

definition Vector_add :: "addr \<Rightarrow> addr \<Rightarrow> state \<Rightarrow> addr \<times> state" where
  "Vector_add p q st =
     (let v = heap st p; w = heap st q in
      (p, st\<lparr>heap := (heap st)(p := \<lparr>vx = vx v + vx w, vy = vy v + vy w, vz = vz v + vz w\<rparr>)\<rparr>))"

text \<open>
  \<^verbatim>\<open>v.div(n)\<close> divides \<^verbatim>\<open>v\<close> in place and returns \<^verbatim>\<open>v\<close> itself; for \<^verbatim>\<open>n = 0\<close> it warns and
  leaves the vector as it is.
\<close>

definition Vector_div :: "addr \<Rightarrow> real \<Rightarrow> state \<Rightarrow> addr \<times> state" where
  "Vector_div p n st =
     (if n = 0 then (p, st)
      else let v = heap st p in
        (p, st\<lparr>heap := (heap st)(p := \<lparr>vx = vx v / n, vy = vy v / n, vz = vz v / n\<rparr>)\<rparr>))"

section \<open>The random source\<close>

text \<open>
  Modelled from the spec: the point that \<^verbatim>\<open>randomPointOnCircleEdge\<close> returns for a given
  angle. The function is not in the source file; the specification has the points "on the
  circle of radius \<open>radius\<close>" around the centre given, "uniformly in angle around the circle",
  and treats them as points of the plane.
\<close>

definition edgePoint :: "real \<Rightarrow> real \<Rightarrow> real \<Rightarrow> real \<Rightarrow> Vector" where
  "edgePoint r cx cy t = \<lparr>vx = cx + r * cos t, vy = cy + r * sin t, vz = 0\<rparr>"

text \<open>
  Modelled from the spec: \<^verbatim>\<open>randomPointOnCircleEdge\<close> is called by \<^verbatim>\<open>drawSphere\<close> and is
  not defined in the source file. The specification describes it as the random source that
  "produces uniformly distributed points on a circle's boundary given radius and center",
  the point being drawn "uniformly in angle around the circle". The model takes the angle
  from the injected source \<^const>\<open>rnd\<close> and returns a new vector, the point of the circle of
  radius \<open>r\<close> around \<open>(cx, cy)\<close> at that angle.
\<close>

definition randomPointOnCircleEdge :: "real \<Rightarrow> real \<Rightarrow> real \<Rightarrow> state \<Rightarrow> addr \<times> state" where
  "randomPointOnCircleEdge r cx cy st =
     (let t = rnd st (drawn st); p = next_addr st in
      (p, st\<lparr>heap := (heap st)(p := edgePoint r cx cy t),
             next_addr := p + 1,
             drawn := drawn st + 1\<rparr>))"

section \<open>The class\<close>

text \<open>
  The constructor stores its four arguments. It has no \<^verbatim>\<open>throw\<close>, so no branch of the
  model returns the error.
\<close>

definition new_CosmicSphere ::
  "real \<Rightarrow> addr \<Rightarrow> Vec4 \<Rightarrow> real \<Rightarrow> error + CosmicSphere" where
  "new_CosmicSphere sz p k n = Inr \<lparr>size_s = sz, pos = p, col = k, iterations = n\<rparr>"

text \<open>The body of the \<^verbatim>\<open>for\<close> loop of \<^verbatim>\<open>drawSphere\<close>, statement by statement.\<close>

definition sampleEndpoints :: "CosmicSphere \<Rightarrow> state \<Rightarrow> addr \<times> addr \<times> state" where
  "sampleEndpoints this st =
     (let (p1, st1) = randomPointOnCircleEdge (size_s this)
                        (vx (heap st (pos this)) * 2) (vy (heap st (pos this)) * 2) st;
          (p2, st2) = randomPointOnCircleEdge (size_s this)
                        (vx (heap st1 (pos this)) * 2) (vy (heap st1 (pos this)) * 2) st1
      in (p1, p2, st2))"

definition aLineLen_of :: "CosmicSphere \<Rightarrow> real \<Rightarrow> real" where
  "aLineLen_of this lenLine = map_p5 lenLine 0 (size_s this * 2) 1 0.3 True"

definition aLight_of :: "real \<Rightarrow> real" where
  "aLight_of dLight = map_p5 dLight 600 1200 0 1.0 False"

definition strokeColor :: "CosmicSphere \<Rightarrow> real \<Rightarrow> Color" where
  "strokeColor this alpha_1 =
     color (a (col this)) (b (col this) - alpha_1 * b (col this)) (c (col this))
           (alpha_1 * d (col this))"

definition chord :: "CosmicSphere \<Rightarrow> state \<Rightarrow> state" where
  "chord this st =
     (let (p1, p2, st2) = sampleEndpoints this st;
          lenLine = Vector_dist p1 p2 st2;
          aLineLen = aLineLen_of this lenLine;
          (midPoint, st3) = (let (r, st') = Vector_add p1 p2 st2 in Vector_div r 2 st');
          dLight = Vector_dist midPoint (lightSource st3) st3;
          aLight = aLight_of dLight;
          alpha_1 = aLight * aLineLen;
          baseColor = strokeColor this alpha_1;
          st4 = stroke baseColor st3;
          st5 = strokeWeight 1.0 st4
      in line (vx (heap st5 p1)) (vy (heap st5 p1)) (vx (heap st5 p2)) (vy (heap st5 p2)) st5)"

text \<open>
  The loop \<^verbatim>\<open>for (var i = 0; i < this.iterations; i++)\<close>; the counter takes the values
  0, 1, 2, ... and is compared with the number \<^verbatim>\<open>this.iterations\<close>.
\<close>

function loop :: "CosmicSphere \<Rightarrow> nat \<Rightarrow> state \<Rightarrow> state" where
  "loop this i st =
     (if real i < iterations this then loop this (i + 1) (chord this st) else st)"
  by pat_completeness auto
termination
proof (relation "measure (\<lambda>(this, i, st). nat \<lceil>iterations this\<rceil> - i)")
  show "wf (measure (\<lambda>(this, i, st). nat \<lceil>iterations this\<rceil> - i))"
    by simp
next
  fix this :: CosmicSphere and i :: nat and st :: state
  assume "real i < iterations this"
  then have "i < nat \<lceil>iterations this\<rceil>"
    by linarith
  then show "((this, i + 1, chord this st), (this, i, st))
      \<in> measure (\<lambda>(this, i, st). nat \<lceil>iterations this\<rceil> - i)"
    by simp
qed

declare loop.simps [simp del]

definition base :: "CosmicSphere \<Rightarrow> state \<Rightarrow> state" where
  "base this st =
     (let st1 = blendMode ''source-over'' st;
          st2 = fill (color 0 0 0 255) st1;
          st3 = circle (vx (heap st2 (pos this))) (vy (heap st2 (pos this))) (size_s this * 2) st2;
          st4 = blendMode ADD st3
      in noFill st4)"

definition drawSphere :: "CosmicSphere \<Rightarrow> state \<Rightarrow> state" where
  "drawSphere this st = loop this 0 (base this st)"

section \<open>The calls one run makes, chord by chord\<close>

text \<open>
  The functions of this section are not in the source. They name what the \<open>k\<close>-th pass
  through the loop computes, in terms of the state \<open>st\<close> in which \<^const>\<open>drawSphere\<close> was
  called; the lemmas below prove that \<^const>\<open>drawSphere\<close> makes exactly these calls.
\<close>

definition midpoint :: "Vector \<Rightarrow> Vector \<Rightarrow> Vector" where
  "midpoint v w = \<lparr>vx = (vx v + vx w) / 2, vy = (vy v + vy w) / 2, vz = (vz v + vz w) / 2\<rparr>"

definition vdist :: "Vector \<Rightarrow> Vector \<Rightarrow> real" where
  "vdist v w = sqrt ((vx v - vx w)\<^sup>2 + (vy v - vy w)\<^sup>2 + (vz v - vz w)\<^sup>2)"

text \<open>The point that the \<open>j\<close>-th draw from the random source gives, counted from \<open>st\<close>.\<close>

definition endpoint :: "CosmicSphere \<Rightarrow> state \<Rightarrow> nat \<Rightarrow> Vector" where
  "endpoint this st j =
     edgePoint (size_s this) (vx (heap st (pos this)) * 2) (vy (heap st (pos this)) * 2)
       (rnd st (drawn st + j))"

definition p1_at :: "CosmicSphere \<Rightarrow> state \<Rightarrow> nat \<Rightarrow> Vector" where
  "p1_at this st k = endpoint this st (2 * k)"

definition p2_at :: "CosmicSphere \<Rightarrow> state \<Rightarrow> nat \<Rightarrow> Vector" where
  "p2_at this st k = endpoint this st (2 * k + 1)"

definition lenLine_at :: "CosmicSphere \<Rightarrow> state \<Rightarrow> nat \<Rightarrow> real" where
  "lenLine_at this st k = vdist (p1_at this st k) (p2_at this st k)"

definition dLight_at :: "CosmicSphere \<Rightarrow> state \<Rightarrow> nat \<Rightarrow> real" where
  "dLight_at this st k =
     vdist (midpoint (p1_at this st k) (p2_at this st k)) (heap st (lightSource st))"

definition alpha_1_at :: "CosmicSphere \<Rightarrow> state \<Rightarrow> nat \<Rightarrow> real" where
  "alpha_1_at this st k =
     aLight_of (dLight_at this st k) * aLineLen_of this (lenLine_at this st k)"

definition chordLine :: "CosmicSphere \<Rightarrow> state \<Rightarrow> nat \<Rightarrow> call" where
  "chordLine this st k =
     Line (vx (midpoint (p1_at this st k) (p2_at this st k)))
          (vy (midpoint (p1_at this st k) (p2_at this st k)))
          (vx (p2_at this st k)) (vy (p2_at this st k))"

definition chordCalls :: "CosmicSphere \<Rightarrow> state \<Rightarrow> nat \<Rightarrow> call list" where
  "chordCalls this st k =
     [Stroke (strokeColor this (alpha_1_at this st k)), StrokeWeight 1, chordLine this st k]"

definition runCalls :: "CosmicSphere \<Rightarrow> state \<Rightarrow> nat \<Rightarrow> call list" where
  "runCalls this st n = concat (map (chordCalls this st) [0..<n])"

definition baseCalls :: "CosmicSphere \<Rightarrow> state \<Rightarrow> call list" where
  "baseCalls this st =
     [BlendMode ''source-over'', Fill (Color 0 0 0 255),
      Circle (vx (heap st (pos this))) (vy (heap st (pos this))) (size_s this * 2),
      BlendMode ''lighter'', NoFill]"

text \<open>The calls that a run adds to the drawing surface.\<close>

definition rendered :: "CosmicSphere \<Rightarrow> state \<Rightarrow> call list" where
  "rendered this st = drop (length (canvas st)) (canvas (drawSphere this st))"

fun isCircle :: "call \<Rightarrow> bool" where
  "isCircle (Circle cx cy dia) = True"
| "isCircle k = False"

fun isLine :: "call \<Rightarrow> bool" where
  "isLine (Line x1 y1 x2 y2) = True"
| "isLine k = False"

fun isStroke :: "call \<Rightarrow> bool" where
  "isStroke (Stroke k) = True"
| "isStroke k = False"

text \<open>
  The objects that exist when the method is called have addresses below the next free
  one: the vector \<^verbatim>\<open>this.pos\<close> and the vector \<^verbatim>\<open>lightSource\<close> are among them.
\<close>

definition allocated :: "CosmicSphere \<Rightarrow> state \<Rightarrow> bool" where
  "allocated this st \<longleftrightarrow> pos this < next_addr st \<and> lightSource st < next_addr st"

text \<open>
  A point lies on the circle of radius \<^verbatim>\<open>this.size\<close> around twice the position that
  \<^verbatim>\<open>this.pos\<close> holds in \<open>st\<close>.
\<close>

definition onEdge :: "CosmicSphere \<Rightarrow> state \<Rightarrow> Vector \<Rightarrow> bool" where
  "onEdge this st v \<longleftrightarrow>
     (vx v - vx (heap st (pos this)) * 2)\<^sup>2 + (vy v - vy (heap st (pos this)) * 2)\<^sup>2
       = (size_s this)\<^sup>2 \<and> vz v = 0"

section \<open>The specification's formulas\<close>

text \<open>
  The two alpha factors as the specification words them, to be compared with
  \<^const>\<open>aLight_of\<close> and \<^const>\<open>aLineLen_of\<close>, which are taken from the source.
\<close>

definition linear :: "real \<Rightarrow> real \<Rightarrow> real \<Rightarrow> real \<Rightarrow> real \<Rightarrow> real" where
  "linear v from1 to1 from2 to2 = from2 + (v - from1) * (to2 - from2) / (to1 - from1)"

definition clamp :: "real \<Rightarrow> real \<Rightarrow> real \<Rightarrow> real" where
  "clamp v lo hi = (if v < lo then lo else if hi < v then hi else v)"

definition lightAlpha_spec :: "real \<Rightarrow> real" where
  "lightAlpha_spec lightDistance = clamp (linear lightDistance 600 1200 0 1) 0 1"

definition lengthAlpha_spec :: "real \<Rightarrow> real \<Rightarrow> real" where
  "lengthAlpha_spec radius chordLength =
     linear (clamp chordLength 0 (2 * radius)) 0 (2 * radius) 1 0.3"

section \<open>A sphere and a state to run the method on\<close>

definition origin :: Vector where
  "origin = \<lparr>vx = 0, vy = 0, vz = 0\<rparr>"

definition sphere_ex :: CosmicSphere where
  "sphere_ex = \<lparr>size_s = 100, pos = 0, col = \<lparr>a = 255, b = 100, c = 255, d = 200\<rparr>,
                 iterations = 1\<rparr>"

text \<open>
  The sphere's centre is the origin, the light is at \<open>(lx, 0)\<close>, and the random source gives
  the angle 0 first and \<open>\<pi>\<close> afterwards: the first chord is the diameter from \<open>(100, 0)\<close> to
  \<open>(-100, 0)\<close>.
\<close>

definition state_ex :: "real \<Rightarrow> state" where
  "state_ex lx =
     \<lparr>heap = (\<lambda>p. if p = 1 then \<lparr>vx = lx, vy = 0, vz = 0\<rparr> else origin),
      next_addr = 2, lightSource = 1,
      rnd = (\<lambda>j. if j = 0 then 0 else pi), drawn = 0, canvas = []\<rparr>"

text \<open>
  A second state, for the same sphere stored at another address: other vectors in the
  store, other calls already on the surface, and a random source that agrees with the
  first one only on the two draws that one chord takes.
\<close>

definition state_ex2 :: state where
  "state_ex2 =
     \<lparr>heap = (\<lambda>p. if p = 4 then \<lparr>vx = 900, vy = 0, vz = 0\<rparr>
                  else if p = 7 then origin else \<lparr>vx = 5, vy = 6, vz = 7\<rparr>),
      next_addr = 9, lightSource = 4,
      rnd = (\<lambda>j. if j = 3 then 0 else if j = 4 then pi else 1), drawn = 3,
      canvas = [NoFill, StrokeWeight 2]\<rparr>"

text \<open>
  A third state, for the example sphere with its centre at \<open>(10, 20)\<close>, where the centre and
  twice the centre differ; the light is at \<open>(920, 40)\<close>.
\<close>

definition state_ex3 :: state where
  "state_ex3 =
     \<lparr>heap = (\<lambda>p. if p = 0 then \<lparr>vx = 10, vy = 20, vz = 0\<rparr>
                  else \<lparr>vx = 920, vy = 40, vz = 0\<rparr>),
      next_addr = 2, lightSource = 1,
      rnd = (\<lambda>j. if j = 0 then 0 else pi), drawn = 0, canvas = []\<rparr>"

section \<open>What one pass through the loop does\<close>

lemma emit_simps [simp]:
  "heap (emit k st) = heap st" "next_addr (emit k st) = next_addr st"
  "lightSource (emit k st) = lightSource st" "rnd (emit k st) = rnd st"
  "drawn (emit k st) = drawn st" "canvas (emit k st) = canvas st @ [k]"
  by (simp_all add: emit_def)

lemma sampleEndpoints_eq:
  assumes "pos this < next_addr st"
  shows "sampleEndpoints this st =
    (next_addr st, next_addr st + 1,
     st\<lparr>heap := (heap st)(next_addr st := endpoint this st 0,
                           next_addr st + 1 := endpoint this st 1),
        next_addr := next_addr st + 2, drawn := drawn st + 2\<rparr>)"
  using assms
  by (simp add: sampleEndpoints_def randomPointOnCircleEdge_def endpoint_def Let_def)

lemma chord_fields:
  assumes "pos this < next_addr st"
  shows "next_addr (chord this st) = next_addr st + 2"
    and "drawn (chord this st) = drawn st + 2"
    and "rnd (chord this st) = rnd st"
    and "lightSource (chord this st) = lightSource st"
  using assms
  by (simp_all add: chord_def sampleEndpoints_eq Vector_add_def Vector_div_def Let_def
      stroke_def strokeWeight_def line_def)

lemma chord_heap:
  assumes "pos this < next_addr st"
  shows "heap (chord this st) =
    (heap st)(next_addr st := midpoint (p1_at this st 0) (p2_at this st 0),
              next_addr st + 1 := p2_at this st 0)"
  using assms
  by (auto simp add: chord_def sampleEndpoints_eq Vector_add_def Vector_div_def Let_def
      stroke_def strokeWeight_def line_def midpoint_def p1_at_def p2_at_def fun_eq_iff)

lemma chord_canvas:
  assumes "pos this < next_addr st" "lightSource st < next_addr st"
  shows "canvas (chord this st) = canvas st @ chordCalls this st 0"
  using assms
  by (simp add: chord_def sampleEndpoints_eq Vector_add_def Vector_div_def Let_def
      stroke_def strokeWeight_def line_def midpoint_def chordCalls_def chordLine_def alpha_1_at_def
      dLight_at_def lenLine_at_def p1_at_def p2_at_def Vector_dist_def vdist_def)

section \<open>What the loop and the method do\<close>

lemma loop_funpow: "loop this i st = (chord this ^^ (nat \<lceil>iterations this\<rceil> - i)) st"
proof (induction this i st rule: loop.induct)
  case (1 this i st)
  show ?case
  proof (cases "real i < iterations this")
    case True
    then have "i < nat \<lceil>iterations this\<rceil>"
      by linarith
    then have "nat \<lceil>iterations this\<rceil> - i = Suc (nat \<lceil>iterations this\<rceil> - (i + 1))"
      by simp
    then have "(chord this ^^ (nat \<lceil>iterations this\<rceil> - i)) st
        = (chord this ^^ (nat \<lceil>iterations this\<rceil> - (i + 1))) (chord this st)"
      by (simp add: funpow_swap1)
    with True 1 show ?thesis
      by (simp add: loop.simps [of this i st])
  next
    case False
    then have "nat \<lceil>iterations this\<rceil> \<le> i"
      by linarith
    with False show ?thesis
      by (simp add: loop.simps [of this i st])
  qed
qed

lemma endpoint_shift:
  assumes "heap st' (pos this) = heap st (pos this)" "rnd st' = rnd st"
    "drawn st' = drawn st + j"
  shows "endpoint this st' i = endpoint this st (j + i)"
  using assms by (simp add: endpoint_def add.assoc)

lemma chordCalls_shift:
  assumes "heap st' (pos this) = heap st (pos this)" "rnd st' = rnd st"
    "drawn st' = drawn st + 2 * n"
    "heap st' (lightSource st') = heap st (lightSource st)"
  shows "chordCalls this st' 0 = chordCalls this st n"
  using assms endpoint_shift [OF assms(1-3), of 0] endpoint_shift [OF assms(1-3), of 1]
  by (simp add: chordCalls_def chordLine_def alpha_1_at_def dLight_at_def lenLine_at_def p1_at_def p2_at_def)

lemma funpow_chord:
  assumes "pos this < next_addr st" "lightSource st < next_addr st"
  shows "next_addr ((chord this ^^ n) st) = next_addr st + 2 * n
       \<and> drawn ((chord this ^^ n) st) = drawn st + 2 * n
       \<and> rnd ((chord this ^^ n) st) = rnd st
       \<and> lightSource ((chord this ^^ n) st) = lightSource st
       \<and> (\<forall>p < next_addr st. heap ((chord this ^^ n) st) p = heap st p)
       \<and> canvas ((chord this ^^ n) st) = canvas st @ runCalls this st n"
proof (induction n)
  case 0
  show ?case by (simp add: runCalls_def)
next
  case (Suc n)
  let ?s = "(chord this ^^ n) st"
  from Suc have na: "next_addr ?s = next_addr st + 2 * n"
    and dr: "drawn ?s = drawn st + 2 * n"
    and rn: "rnd ?s = rnd st"
    and li: "lightSource ?s = lightSource st"
    and hp: "\<And>p. p < next_addr st \<Longrightarrow> heap ?s p = heap st p"
    and cv: "canvas ?s = canvas st @ runCalls this st n"
    by simp_all
  have p: "pos this < next_addr ?s" and l: "lightSource ?s < next_addr ?s"
    using assms na li by simp_all
  have "chordCalls this ?s 0 = chordCalls this st n"
    using hp assms rn dr li by (intro chordCalls_shift) simp_all
  then have "canvas (chord this ?s) = canvas st @ runCalls this st (Suc n)"
    using chord_canvas [OF p l] cv by (simp add: runCalls_def)
  moreover have "\<forall>p < next_addr st. heap (chord this ?s) p = heap st p"
    using chord_heap [OF p] na hp by simp
  ultimately show ?case
    using chord_fields [OF p] na dr rn li by simp
qed

lemma base_fields [simp]:
  "heap (base this st) = heap st" "next_addr (base this st) = next_addr st"
  "lightSource (base this st) = lightSource st" "rnd (base this st) = rnd st"
  "drawn (base this st) = drawn st"
  "canvas (base this st) = canvas st @ baseCalls this st"
  by (simp_all add: base_def baseCalls_def blendMode_def fill_def circle_def noFill_def
      color_def constrain_def ADD_def Let_def)

lemma chordCalls_base [simp]: "chordCalls this (base this st) k = chordCalls this st k"
  by (simp add: chordCalls_def chordLine_def alpha_1_at_def dLight_at_def lenLine_at_def
      p1_at_def p2_at_def endpoint_def)

lemma runCalls_base [simp]: "runCalls this (base this st) n = runCalls this st n"
proof -
  have "chordCalls this (base this st) = chordCalls this st"
    by (rule ext) simp
  then show ?thesis
    by (simp add: runCalls_def)
qed

lemma drawSphere_funpow:
  "drawSphere this st = (chord this ^^ nat \<lceil>iterations this\<rceil>) (base this st)"
  by (simp add: drawSphere_def loop_funpow)

lemma rendered_eq:
  assumes "allocated this st"
  shows "rendered this st = baseCalls this st @ runCalls this st (nat \<lceil>iterations this\<rceil>)"
  using funpow_chord [of this "base this st" "nat \<lceil>iterations this\<rceil>"] assms
  by (simp add: drawSphere_funpow rendered_def allocated_def)

section \<open>The run on the example\<close>

lemma allocated_ex: "allocated sphere_ex (state_ex lx)"
  by (simp add: allocated_def sphere_ex_def state_ex_def)

lemma endpoint_ex:
  "p1_at sphere_ex (state_ex lx) 0 = \<lparr>vx = 100, vy = 0, vz = 0\<rparr>"
  "p2_at sphere_ex (state_ex lx) 0 = \<lparr>vx = - 100, vy = 0, vz = 0\<rparr>"
  by (simp_all add: p1_at_def p2_at_def endpoint_def sphere_ex_def state_ex_def edgePoint_def
      origin_def)

lemma lenLine_ex: "lenLine_at sphere_ex (state_ex lx) 0 = 200"
  by (simp add: lenLine_at_def endpoint_ex vdist_def)

lemma light_ex: "heap (state_ex lx) (lightSource (state_ex lx)) = \<lparr>vx = lx, vy = 0, vz = 0\<rparr>"
  by (simp add: state_ex_def)

lemma dLight_ex: "dLight_at sphere_ex (state_ex lx) 0 = \<bar>lx\<bar>"
  by (simp add: dLight_at_def endpoint_ex light_ex vdist_def midpoint_def)

lemma aLineLen_ex: "aLineLen_of sphere_ex 200 = 3 / 10"
  by (simp add: aLineLen_of_def map_p5_def constrain_def sphere_ex_def)

lemma alpha_1_ex: "alpha_1_at sphere_ex (state_ex lx) 0 = (\<bar>lx\<bar> - 600) / 600 * (3 / 10)"
  by (simp add: alpha_1_at_def lenLine_ex dLight_ex aLineLen_ex aLight_of_def map_p5_def)

lemma strokeColor_ex:
  "strokeColor sphere_ex al
     = Color 255 (constrain (100 - al * 100) 0 255) 255 (constrain (al * 200) 0 255)"
  by (simp add: strokeColor_def color_def sphere_ex_def) (simp add: constrain_def)

lemma chordCalls_ex:
  "chordCalls sphere_ex (state_ex lx) 0 =
     [Stroke (Color 255 (constrain (100 - (\<bar>lx\<bar> - 600) / 600 * (3 / 10) * 100) 0 255) 255
                (constrain ((\<bar>lx\<bar> - 600) / 600 * (3 / 10) * 200) 0 255)),
      StrokeWeight 1, Line 0 0 (- 100) 0]"
  by (simp add: chordCalls_def chordLine_def alpha_1_ex endpoint_ex midpoint_def strokeColor_ex)

lemma baseCalls_ex:
  "baseCalls sphere_ex (state_ex lx) =
     [BlendMode ''source-over'', Fill (Color 0 0 0 255), Circle 0 0 200,
      BlendMode ''lighter'', NoFill]"
  by (simp add: baseCalls_def sphere_ex_def state_ex_def origin_def)

lemma rendered_ex:
  "rendered sphere_ex (state_ex lx) =
     [BlendMode ''source-over'', Fill (Color 0 0 0 255), Circle 0 0 200,
      BlendMode ''lighter'', NoFill,
      Stroke (Color 255 (constrain (100 - (\<bar>lx\<bar> - 600) / 600 * (3 / 10) * 100) 0 255) 255
                (constrain ((\<bar>lx\<bar> - 600) / 600 * (3 / 10) * 200) 0 255)),
      StrokeWeight 1, Line 0 0 (- 100) 0]"
proof -
  have "nat \<lceil>iterations sphere_ex\<rceil> = Suc 0"
    by (simp add: sphere_ex_def)
  then show ?thesis
    by (simp add: rendered_eq [OF allocated_ex] baseCalls_ex runCalls_def chordCalls_ex)
qed

lemma sampled_ex:
  "(case sampleEndpoints sphere_ex (state_ex lx) of (p1, p2, st2) \<Rightarrow> (heap st2 p1, heap st2 p2))
     = (\<lparr>vx = 100, vy = 0, vz = 0\<rparr>, \<lparr>vx = - 100, vy = 0, vz = 0\<rparr>)"
proof -
  have "pos sphere_ex < next_addr (state_ex lx)"
    by (simp add: sphere_ex_def state_ex_def)
  then show ?thesis
    using endpoint_ex [of lx] by (simp add: sampleEndpoints_eq p1_at_def p2_at_def)
qed

section \<open>Helper facts for the claims\<close>

lemma chordLine_ex: "chordLine sphere_ex (state_ex lx) 0 = Line 0 0 (- 100) 0"
  by (simp add: chordLine_def endpoint_ex midpoint_def)

lemma allocated_ex2: "allocated (sphere_ex\<lparr>pos := 7\<rparr>) state_ex2"
  by (simp add: allocated_def state_ex2_def)

lemma strokes_runCalls:
  "filter isStroke (runCalls this st n) =
     map (\<lambda>k. Stroke (strokeColor this (alpha_1_at this st k))) [0..<n]"
  by (induction n) (simp_all add: runCalls_def chordCalls_def chordLine_def)

lemma shapes_runCalls:
  "filter (\<lambda>k. isCircle k \<or> isLine k) (runCalls this st n) = map (chordLine this st) [0..<n]"
  by (induction n) (simp_all add: runCalls_def chordCalls_def chordLine_def)

lemma lines_runCalls:
  "filter isLine (runCalls this st n) = map (chordLine this st) [0..<n]"
  by (induction n) (simp_all add: runCalls_def chordCalls_def chordLine_def)

lemma circles_runCalls: "filter isCircle (runCalls this st n) = []"
  by (induction n) (simp_all add: runCalls_def chordCalls_def chordLine_def)

lemma aLight_of_eq: "aLight_of dl = (dl - 600) / 600"
  by (simp add: aLight_of_def map_p5_def)

lemma aLineLen_of_bounds: "3 / 10 \<le> aLineLen_of this len \<and> aLineLen_of this len \<le> 1"
  by (simp add: aLineLen_of_def map_p5_def constrain_def Let_def)

lemma edgePoint_onEdge:
  "onEdge this st (edgePoint (size_s this) (vx (heap st (pos this)) * 2)
                      (vy (heap st (pos this)) * 2) t)"
proof -
  have "(size_s this * cos t)\<^sup>2 + (size_s this * sin t)\<^sup>2
      = (size_s this)\<^sup>2 * ((cos t)\<^sup>2 + (sin t)\<^sup>2)"
    by (simp only: power_mult_distrib distrib_left)
  also have "\<dots> = (size_s this)\<^sup>2"
    by simp
  finally show ?thesis
    by (simp add: onEdge_def edgePoint_def)
qed

lemma constrain_id: "lo \<le> v \<Longrightarrow> v \<le> hi \<Longrightarrow> constrain v lo hi = v"
  by (simp add: constrain_def)

lemma stroke_rendered:
  assumes "allocated this st" "k < nat \<lceil>iterations this\<rceil>"
  shows "filter isStroke (rendered this st) ! k = Stroke (strokeColor this (alpha_1_at this st k))"
  using assms(2) by (simp add: rendered_eq [OF assms(1)] baseCalls_def strokes_runCalls)

lemma funpow_chord_heap:
  assumes "pos this < next_addr st" "lightSource st < next_addr st" "k < n"
  shows "heap ((chord this ^^ n) st) (next_addr st + 2 * k)
           = midpoint (p1_at this st k) (p2_at this st k)
       \<and> heap ((chord this ^^ n) st) (next_addr st + 2 * k + 1) = p2_at this st k"
  using assms(3)
proof (induction n)
  case 0
  then show ?case by simp
next
  case (Suc n)
  let ?s = "(chord this ^^ n) st"
  have f: "next_addr ?s = next_addr st + 2 * n" "drawn ?s = drawn st + 2 * n"
    "rnd ?s = rnd st" "\<forall>p < next_addr st. heap ?s p = heap st p"
    using funpow_chord [OF assms(1,2), of n] by simp_all
  have p: "pos this < next_addr ?s"
    using f(1) assms(1) by simp
  have hp: "heap ?s (pos this) = heap st (pos this)"
    using f(4) assms(1) by simp
  have e: "p1_at this ?s 0 = p1_at this st n" "p2_at this ?s 0 = p2_at this st n"
    using endpoint_shift [OF hp f(3) f(2), of 0] endpoint_shift [OF hp f(3) f(2), of 1]
    by (simp_all add: p1_at_def p2_at_def)
  show ?case
  proof (cases "k = n")
    case True
    then show ?thesis
      by (simp add: chord_heap [OF p] f(1) e)
  next
    case False
    with Suc.prems have "k < n" by simp
    then show ?thesis
      using Suc.IH by (simp add: chord_heap [OF p] f(1))
  qed
qed

lemma drawSphere_heap:
  assumes "allocated this st" "k < nat \<lceil>iterations this\<rceil>"
  shows "heap (drawSphere this st) (next_addr st + 2 * k)
           = midpoint (p1_at this st k) (p2_at this st k)"
    and "heap (drawSphere this st) (next_addr st + 2 * k + 1) = p2_at this st k"
  using funpow_chord_heap [of this "base this st" k "nat \<lceil>iterations this\<rceil>"] assms
  by (simp_all add: drawSphere_funpow allocated_def p1_at_def p2_at_def endpoint_def)

lemma lines_rendered:
  assumes "allocated this st"
  shows "filter isLine (rendered this st)
    = map (chordLine this st) [0..<nat \<lceil>iterations this\<rceil>]"
  by (simp add: rendered_eq [OF assms] baseCalls_def lines_runCalls)

lemma allocated_ex3: "allocated sphere_ex state_ex3"
  by (simp add: allocated_def sphere_ex_def state_ex3_def)

lemma endpoint_ex3:
  "endpoint sphere_ex state_ex3 0 = \<lparr>vx = 120, vy = 40, vz = 0\<rparr>"
  "endpoint sphere_ex state_ex3 1 = \<lparr>vx = - 80, vy = 40, vz = 0\<rparr>"
  by (simp_all add: endpoint_def sphere_ex_def state_ex3_def edgePoint_def)

section \<open>The claims\<close>

subsection \<open>C1: the segment drawn\<close>

text \<open>
  C1. In every pass the segment drawn should run from the sampled point \<open>p1\<close> to the sampled
  point \<open>p2\<close>. The source computes \<^verbatim>\<open>midPoint = p1.add(p2).div(2)\<close>, which changes the vector
  \<open>p1\<close> itself into the midpoint, and then draws \<^verbatim>\<open>line(p1.x, p1.y, p2.x, p2.y)\<close>. On the
  example with the light at \<open>(900, 0)\<close> the points sampled are \<open>(100, 0)\<close> and \<open>(-100, 0)\<close>,
  and the segment drawn runs from the midpoint \<open>(0, 0)\<close> to \<open>(-100, 0)\<close>.
\<close>

theorem C1_line_starts_at_midpoint:
  "(case sampleEndpoints sphere_ex (state_ex 900) of
      (p1, p2, st2) \<Rightarrow> (heap st2 p1, heap st2 p2))
     = (\<lparr>vx = 100, vy = 0, vz = 0\<rparr>, \<lparr>vx = - 100, vy = 0, vz = 0\<rparr>)
   \<and> rendered sphere_ex (state_ex 900) =
     [BlendMode ''source-over'', Fill (Color 0 0 0 255), Circle 0 0 200,
      BlendMode ''lighter'', NoFill,
      Stroke (Color 255 85 255 30), StrokeWeight 1, Line 0 0 (- 100) 0]"
  by (simp add: sampled_ex rendered_ex constrain_def)

subsection \<open>C2: the alpha factor of the light\<close>

text \<open>
  C2, as stated, fails. The claim has \<open>lightAlpha\<close> clamped to \<open>[0, 1]\<close>, so that a midpoint
  at distance at most 600 from the light gives 0. The source calls \<^verbatim>\<open>map(dLight, 600, 1200,
  0, 1.0)\<close> without the sixth argument, so nothing is clamped: on the example with the
  light at the sphere's centre the distance is 0 and the factor is \<open>-1\<close>, where the
  specification's formula gives 0.
\<close>

theorem C2_counterexample:
  "dLight_at sphere_ex (state_ex 0) 0 = 0
   \<and> aLight_of (dLight_at sphere_ex (state_ex 0) 0) = - 1
   \<and> lightAlpha_spec (dLight_at sphere_ex (state_ex 0) 0) = 0"
  by (simp add: dLight_ex aLight_of_eq lightAlpha_spec_def linear_def clamp_def)

text \<open>
  C2, amended. The factor is the linear map of the distance from \<open>[600, 1200]\<close> to \<open>[0, 1]\<close>
  with no clamping, \<open>(distance - 600) / 600\<close>: it is 0 at distance 600 and 1 at distance
  1200, it agrees with the clamped formula exactly for the distances from 600 to 1200, it
  is negative below 600 and greater than 1 above 1200.
\<close>

theorem C2_aLight_is_unclamped_linear_map:
  "aLight_of dl = linear dl 600 1200 0 1
   \<and> aLight_of dl = (dl - 600) / 600
   \<and> aLight_of 600 = 0 \<and> aLight_of 1200 = 1
   \<and> (aLight_of dl = lightAlpha_spec dl) = (600 \<le> dl \<and> dl \<le> 1200)
   \<and> (aLight_of dl < 0) = (dl < 600)
   \<and> (1 < aLight_of dl) = (1200 < dl)"
  by (auto simp add: aLight_of_eq lightAlpha_spec_def linear_def clamp_def)

subsection \<open>C3: the range of the combined alpha\<close>

text \<open>
  C3, as stated, fails. With the light at the sphere's centre the chord of the example has
  the combined alpha \<open>-3/10\<close>, below 0. With the light at \<open>(3000, 0)\<close> it has the combined
  alpha \<open>12/10\<close>, above 1, and the stroke colour passed to the surface has the alpha 240,
  above the 200 of the base colour.
\<close>

theorem C3_counterexample:
  "alpha_1_at sphere_ex (state_ex 0) 0 = - 3 / 10
   \<and> alpha_1_at sphere_ex (state_ex 3000) 0 = 12 / 10
   \<and> rendered sphere_ex (state_ex 3000) ! 5 = Stroke (Color 255 0 255 240)
   \<and> d (col sphere_ex) = 200 \<and> size_s sphere_ex = 100"
  by (simp add: alpha_1_ex rendered_ex constrain_def) (simp add: sphere_ex_def)

text \<open>
  C3, amended. For the \<open>k\<close>-th chord of a run on a sphere whose size is not zero and whose
  base alpha is not negative: if the midpoint is at a distance of at least 600 from the
  light, the combined alpha and its product with the base alpha are not negative; if the
  distance is at most 1200, the combined alpha is at most 1 and the product is at most the
  base alpha; below 600 the combined alpha is negative. The stroke colour of that chord
  carries the product constrained by \<^verbatim>\<open>color\<close> to the range from 0 to 255: that alpha is
  never negative, and it is at most the base alpha whenever the distance is at most 1200.
\<close>

theorem C3_alpha_bounds:
  assumes "allocated this st" and "k < nat \<lceil>iterations this\<rceil>"
    and "size_s this \<noteq> 0" and "0 \<le> d (col this)"
  shows "(600 \<le> dLight_at this st k \<longrightarrow>
            0 \<le> alpha_1_at this st k \<and> 0 \<le> alpha_1_at this st k * d (col this))
       \<and> (dLight_at this st k \<le> 1200 \<longrightarrow>
            alpha_1_at this st k \<le> 1 \<and> alpha_1_at this st k * d (col this) \<le> d (col this))
       \<and> (dLight_at this st k < 600 \<longrightarrow> alpha_1_at this st k < 0)
       \<and> filter isStroke (rendered this st) ! k
           = Stroke (Color (constrain (a (col this)) 0 255)
                           (constrain (b (col this) - alpha_1_at this st k * b (col this)) 0 255)
                           (constrain (c (col this)) 0 255)
                           (constrain (alpha_1_at this st k * d (col this)) 0 255))
       \<and> 0 \<le> constrain (alpha_1_at this st k * d (col this)) 0 255
       \<and> (dLight_at this st k \<le> 1200 \<longrightarrow>
            constrain (alpha_1_at this st k * d (col this)) 0 255 \<le> d (col this))"
proof -
  let ?L = "aLight_of (dLight_at this st k)"
  let ?N = "aLineLen_of this (lenLine_at this st k)"
  let ?al = "alpha_1_at this st k"
  have N: "0 < ?N" "?N \<le> 1"
    using aLineLen_of_bounds [of this "lenLine_at this st k"] by simp_all
  have al: "?al = ?L * ?N"
    by (simp add: alpha_1_at_def)
  have lo: "0 \<le> ?al \<and> 0 \<le> ?al * d (col this)" if "600 \<le> dLight_at this st k"
  proof -
    have "0 \<le> ?L"
      using that by (simp add: aLight_of_eq)
    then have "0 \<le> ?al"
      using N(1) by (simp add: al)
    then show ?thesis
      using assms(4) by simp
  qed
  have hi: "?al \<le> 1 \<and> ?al * d (col this) \<le> d (col this)" if "dLight_at this st k \<le> 1200"
  proof -
    have L: "?L \<le> 1"
      using that by (simp add: aLight_of_eq)
    have "?al \<le> 1"
    proof (cases "0 \<le> ?L")
      case True
      then show ?thesis
        using L N by (simp add: al mult_le_one)
    next
      case False
      then have "?L * ?N \<le> 0"
        using N(1) by (simp add: mult_le_0_iff)
      then show ?thesis
        by (simp add: al)
    qed
    then show ?thesis
      using mult_right_mono [of ?al 1 "d (col this)"] assms(4) by simp
  qed
  have neg: "?al < 0" if "dLight_at this st k < 600"
  proof -
    have "?L < 0"
      using that by (simp add: aLight_of_eq)
    then show ?thesis
      using N(1) by (simp add: al mult_less_0_iff)
  qed
  have st: "filter isStroke (rendered this st) ! k
      = Stroke (Color (constrain (a (col this)) 0 255)
                      (constrain (b (col this) - ?al * b (col this)) 0 255)
                      (constrain (c (col this)) 0 255)
                      (constrain (?al * d (col this)) 0 255))"
    by (simp add: stroke_rendered [OF assms(1,2)] strokeColor_def color_def)
  have c0: "0 \<le> constrain (?al * d (col this)) 0 255"
    by (simp add: constrain_def)
  have c1: "constrain (?al * d (col this)) 0 255 \<le> d (col this)"
    if "dLight_at this st k \<le> 1200"
    using hi [OF that] assms(4) by (simp add: constrain_def min_def)
  show ?thesis
    using lo hi neg st c0 c1 by blast
qed

text \<open>
  C3, witness: the example with the light at \<open>(900, 0)\<close>, where the combined alpha is
  \<open>15/100\<close> and the stroke colour has the alpha 30, and with the light at the centre, where
  the combined alpha is negative and the stroke colour has the alpha 0.
\<close>

theorem C3_alpha_bounds_witness:
  "allocated sphere_ex (state_ex 900) \<and> (0::nat) < nat \<lceil>iterations sphere_ex\<rceil>
   \<and> size_s sphere_ex \<noteq> 0 \<and> 0 \<le> d (col sphere_ex)
   \<and> 600 \<le> dLight_at sphere_ex (state_ex 900) 0 \<and> dLight_at sphere_ex (state_ex 900) 0 \<le> 1200
   \<and> alpha_1_at sphere_ex (state_ex 900) 0 = 15 / 100
   \<and> filter isStroke (rendered sphere_ex (state_ex 900)) ! 0 = Stroke (Color 255 85 255 30)
   \<and> allocated sphere_ex (state_ex 0)
   \<and> dLight_at sphere_ex (state_ex 0) 0 < 600
   \<and> alpha_1_at sphere_ex (state_ex 0) 0 < 0
   \<and> filter isStroke (rendered sphere_ex (state_ex 0)) ! 0 = Stroke (Color 255 130 255 0)"
proof -
  have h: "(0::nat) < nat \<lceil>iterations sphere_ex\<rceil>" "size_s sphere_ex \<noteq> 0"
    "0 \<le> d (col sphere_ex)"
    by (simp_all add: sphere_ex_def)
  have a9: "allocated sphere_ex (state_ex 900)" and a0: "allocated sphere_ex (state_ex 0)"
    by (rule allocated_ex)+
  have v: "a (col sphere_ex) = 255" "b (col sphere_ex) = 100" "c (col sphere_ex) = 255"
    "d (col sphere_ex) = 200"
    by (simp_all add: sphere_ex_def)
  have d9: "600 \<le> dLight_at sphere_ex (state_ex 900) 0"
    "dLight_at sphere_ex (state_ex 900) 0 \<le> 1200"
    and d0: "dLight_at sphere_ex (state_ex 0) 0 < 600"
    by (simp_all add: dLight_ex)
  show ?thesis
    using h a9 a0 d9 d0 C3_alpha_bounds [OF a9 h] C3_alpha_bounds [OF a0 h]
    by (simp add: alpha_1_ex v constrain_def)
qed

subsection \<open>C4: one circle, then as many segments as chords\<close>

text \<open>
  C4. When the chord count is the number \<open>n\<close>, the circles and segments that a run draws are,
  in this order, the base circle and then \<open>n\<close> segments: one circle, \<open>n\<close> segments, and no
  segment at all for the chord count 0.
\<close>

theorem C4_one_circle_then_chordCount_lines:
  assumes "allocated this st" and "iterations this = real n"
  shows "filter (\<lambda>k. isCircle k \<or> isLine k) (rendered this st)
           = Circle (vx (heap st (pos this))) (vy (heap st (pos this))) (size_s this * 2)
             # map (chordLine this st) [0..<n]
       \<and> length (filter isCircle (rendered this st)) = 1
       \<and> length (filter isLine (rendered this st)) = n
       \<and> (n = 0 \<longrightarrow> filter isLine (rendered this st) = [])"
proof -
  have "nat \<lceil>iterations this\<rceil> = n"
    using assms(2) by simp
  then have r: "rendered this st = baseCalls this st @ runCalls this st n"
    using rendered_eq [OF assms(1)] by simp
  show ?thesis
    unfolding r
    by (simp add: baseCalls_def shapes_runCalls lines_runCalls circles_runCalls)
qed

text \<open>C4, witness: the example, whose chord count is 1.\<close>

theorem C4_witness:
  "allocated sphere_ex (state_ex 900) \<and> iterations sphere_ex = real 1
   \<and> filter (\<lambda>k. isCircle k \<or> isLine k) (rendered sphere_ex (state_ex 900))
       = [Circle 0 0 200, Line 0 0 (- 100) 0]
   \<and> length (filter isCircle (rendered sphere_ex (state_ex 900))) = 1
   \<and> length (filter isLine (rendered sphere_ex (state_ex 900))) = 1"
proof -
  have h: "allocated sphere_ex (state_ex 900)" "iterations sphere_ex = real 1"
    using allocated_ex [of 900] by (simp_all add: sphere_ex_def)
  show ?thesis
    using h C4_one_circle_then_chordCount_lines [OF h]
    by (simp add: rendered_ex chordLine_ex)
qed

subsection \<open>C5: the stroke colour\<close>

text \<open>
  C5, as stated, fails. The colour is built by \<^verbatim>\<open>color\<close>, which constrains each component
  to the range from 0 to 255. With the light at \<open>(3000, 0)\<close> the chord of the example has
  \<open>alpha_1 = 12/10\<close>, the claim's channel 1 is \<open>100 * (1 - 12/10) = -20\<close>, and the stroke
  colour passed to the surface has the channel 1 equal to 0. With the light at the centre
  \<open>alpha_1 = -3/10\<close>, the claim's alpha is \<open>-60\<close>, and the colour passed has the alpha 0.
\<close>

theorem C5_counterexample:
  "alpha_1_at sphere_ex (state_ex 3000) 0 = 12 / 10
   \<and> b (col sphere_ex) * (1 - 12 / 10) = - 20
   \<and> rendered sphere_ex (state_ex 3000) ! 5 = Stroke (Color 255 0 255 240)
   \<and> alpha_1_at sphere_ex (state_ex 0) 0 = - 3 / 10
   \<and> d (col sphere_ex) * (- 3 / 10) = - 60
   \<and> rendered sphere_ex (state_ex 0) ! 5 = Stroke (Color 255 130 255 0)"
  by (simp add: alpha_1_ex rendered_ex constrain_def) (simp add: sphere_ex_def)

text \<open>
  C5, amended. On a sphere whose size is not zero, the stroke colours that a run passes to
  the surface are, chord by chord, the four values of the claim, each constrained to the
  range from 0 to 255: the channels 0 and 2 of the base colour, the channel 1 multiplied
  by \<open>1 - alpha_1\<close> and the alpha multiplied by \<open>alpha_1\<close>, where \<open>alpha_1\<close> is the product of
  the two factors that the source computes for that chord. When the components of the base
  colour are in that range and \<open>alpha_1\<close> is between 0 and 1, the colour is exactly the
  claim's.
\<close>

theorem C5_stroke_color_constrained:
  assumes "allocated this st" and "size_s this \<noteq> 0"
  shows "filter isStroke (rendered this st) =
     map (\<lambda>k. Stroke (Color (constrain (a (col this)) 0 255)
                             (constrain (b (col this) * (1 - alpha_1_at this st k)) 0 255)
                             (constrain (c (col this)) 0 255)
                             (constrain (d (col this) * alpha_1_at this st k) 0 255)))
         [0..<nat \<lceil>iterations this\<rceil>]
     \<and> (\<forall>k. alpha_1_at this st k
             = aLight_of (dLight_at this st k) * aLineLen_of this (lenLine_at this st k))
     \<and> (\<forall>k < nat \<lceil>iterations this\<rceil>.
           0 \<le> a (col this) \<and> a (col this) \<le> 255 \<and> 0 \<le> b (col this) \<and> b (col this) \<le> 255
           \<and> 0 \<le> c (col this) \<and> c (col this) \<le> 255 \<and> 0 \<le> d (col this) \<and> d (col this) \<le> 255
           \<and> 0 \<le> alpha_1_at this st k \<and> alpha_1_at this st k \<le> 1 \<longrightarrow>
           filter isStroke (rendered this st) ! k
             = Stroke (Color (a (col this)) (b (col this) * (1 - alpha_1_at this st k))
                             (c (col this)) (d (col this) * alpha_1_at this st k)))"
proof -
  have sc: "strokeColor this al
      = Color (constrain (a (col this)) 0 255) (constrain (b (col this) * (1 - al)) 0 255)
              (constrain (c (col this)) 0 255) (constrain (d (col this) * al) 0 255)" for al
    by (simp add: strokeColor_def color_def algebra_simps)
  have all: "filter isStroke (rendered this st) =
     map (\<lambda>k. Stroke (Color (constrain (a (col this)) 0 255)
                             (constrain (b (col this) * (1 - alpha_1_at this st k)) 0 255)
                             (constrain (c (col this)) 0 255)
                             (constrain (d (col this) * alpha_1_at this st k) 0 255)))
         [0..<nat \<lceil>iterations this\<rceil>]"
    by (simp add: rendered_eq [OF assms(1)] baseCalls_def strokes_runCalls sc)
  have inr: "constrain (v * w) 0 255 = v * w" if "0 \<le> v" "v \<le> 255" "0 \<le> w" "w \<le> 1"
    for v w :: real
  proof -
    have "v * w \<le> v * 1"
      using that by (intro mult_left_mono) simp_all
    then show ?thesis
      using that by (intro constrain_id) simp_all
  qed
  have one: "filter isStroke (rendered this st) ! k
        = Stroke (Color (a (col this)) (b (col this) * (1 - alpha_1_at this st k))
                        (c (col this)) (d (col this) * alpha_1_at this st k))"
    if "k < nat \<lceil>iterations this\<rceil>"
      "0 \<le> a (col this)" "a (col this) \<le> 255" "0 \<le> b (col this)" "b (col this) \<le> 255"
      "0 \<le> c (col this)" "c (col this) \<le> 255" "0 \<le> d (col this)" "d (col this) \<le> 255"
      "0 \<le> alpha_1_at this st k" "alpha_1_at this st k \<le> 1" for k
    using that
    by (simp add: stroke_rendered [OF assms(1) that(1)] sc constrain_id inr)
  show ?thesis
    using all one by (simp add: alpha_1_at_def)
qed

text \<open>
  C5, witness: the example with the light at \<open>(900, 0)\<close>, where \<open>alpha_1\<close> is \<open>15/100\<close> and the
  base colour \<open>(255, 100, 255, 200)\<close> becomes \<open>(255, 85, 255, 30)\<close>.
\<close>

theorem C5_witness:
  "allocated sphere_ex (state_ex 900) \<and> size_s sphere_ex \<noteq> 0
   \<and> (0::nat) < nat \<lceil>iterations sphere_ex\<rceil>
   \<and> a (col sphere_ex) = 255 \<and> b (col sphere_ex) = 100
   \<and> c (col sphere_ex) = 255 \<and> d (col sphere_ex) = 200
   \<and> alpha_1_at sphere_ex (state_ex 900) 0 = 15 / 100
   \<and> filter isStroke (rendered sphere_ex (state_ex 900)) = [Stroke (Color 255 85 255 30)]
   \<and> filter isStroke (rendered sphere_ex (state_ex 900)) ! 0
       = Stroke (Color 255 (100 * (1 - 15 / 100)) 255 (200 * (15 / 100)))"
proof -
  have h: "allocated sphere_ex (state_ex 900)" "size_s sphere_ex \<noteq> 0"
    using allocated_ex [of 900] by (simp_all add: sphere_ex_def)
  have n: "[0..<nat \<lceil>iterations sphere_ex\<rceil>] = [0]" "(0::nat) < nat \<lceil>iterations sphere_ex\<rceil>"
    by (simp_all add: sphere_ex_def)
  have v: "a (col sphere_ex) = 255" "b (col sphere_ex) = 100" "c (col sphere_ex) = 255"
    "d (col sphere_ex) = 200"
    by (simp_all add: sphere_ex_def)
  note t = C5_stroke_color_constrained [OF h]
  have "filter isStroke (rendered sphere_ex (state_ex 900)) = [Stroke (Color 255 85 255 30)]"
    using t unfolding n by (simp add: alpha_1_ex v constrain_def)
  then show ?thesis
    using h n(2) by (simp add: alpha_1_ex v)
qed

subsection \<open>C6: the alpha factor of the chord length\<close>

text \<open>
  C6. For a positive radius the factor that the source computes from the chord length is
  the specification's one: the linear map from \<open>[0, 2 * radius]\<close> to \<open>[1, 0.3]\<close> of the
  length clamped to the source range. It lies between 0.3 and 1, it is 1 for the length 0
  and 0.3 for the length \<open>2 * radius\<close>.
\<close>

theorem C6_aLineLen:
  assumes "0 < size_s this"
  shows "aLineLen_of this len = lengthAlpha_spec (size_s this) len
       \<and> 3 / 10 \<le> aLineLen_of this len \<and> aLineLen_of this len \<le> 1
       \<and> aLineLen_of this 0 = 1
       \<and> aLineLen_of this (size_s this * 2) = 3 / 10"
proof -
  have eq: "aLineLen_of this len = lengthAlpha_spec (size_s this) len"
    using assms
    by (auto simp add: aLineLen_of_def map_p5_def constrain_def lengthAlpha_spec_def
        linear_def clamp_def Let_def min_def max_def field_simps)
  have e0: "aLineLen_of this 0 = 1"
    by (simp add: aLineLen_of_def map_p5_def constrain_def)
  have e1: "aLineLen_of this (size_s this * 2) = 3 / 10"
    using assms by (simp add: aLineLen_of_def map_p5_def constrain_def)
  show ?thesis
    using eq e0 e1 aLineLen_of_bounds [of this len] by simp
qed

text \<open>C6, witness: the radius 100 and the chord length 50, with the factor \<open>33/40\<close>.\<close>

theorem C6_witness:
  "0 < size_s sphere_ex
   \<and> aLineLen_of sphere_ex 50 = lengthAlpha_spec 100 50
   \<and> aLineLen_of sphere_ex 50 = 33 / 40
   \<and> aLineLen_of sphere_ex 0 = 1
   \<and> aLineLen_of sphere_ex 200 = 3 / 10"
proof -
  have h: "0 < size_s sphere_ex"
    by (simp add: sphere_ex_def)
  have s: "size_s sphere_ex = 100"
    by (simp add: sphere_ex_def)
  show ?thesis
    using h C6_aLineLen [OF h, of 50]
    by (simp add: s lengthAlpha_spec_def linear_def clamp_def)
qed

subsection \<open>C7: construction\<close>

text \<open>
  C7, as stated, fails. Construction with a radius that is not positive or a negative chord
  count should fail with an invalid-configuration error. The constructor checks nothing:
  it returns a sphere for the radius \<open>-1\<close> and the chord count \<open>-5\<close>.
\<close>

theorem C7_counterexample:
  "(- 1 :: real) \<le> 0 \<and> (- 5 :: real) < 0
   \<and> new_CosmicSphere (- 1) 0 \<lparr>a = 255, b = 100, c = 255, d = 200\<rparr> (- 5)
       = Inr \<lparr>size_s = - 1, pos = 0, col = \<lparr>a = 255, b = 100, c = 255, d = 200\<rparr>,
              iterations = - 5\<rparr>
   \<and> new_CosmicSphere (- 1) 0 \<lparr>a = 255, b = 100, c = 255, d = 200\<rparr> (- 5)
       \<noteq> Inl InvalidConfiguration"
  by (simp add: new_CosmicSphere_def)

text \<open>
  C7, amended. Construction never fails: for every radius, centre, colour and chord count
  the constructor returns a sphere whose four fields are the four arguments.
\<close>

theorem C7_constructor_stores_arguments:
  "new_CosmicSphere sz p k n = Inr \<lparr>size_s = sz, pos = p, col = k, iterations = n\<rparr>"
  by (simp add: new_CosmicSphere_def)

subsection \<open>C8: the centre of the circle and the centre of the sampling\<close>

text \<open>
  C8. The third call of a run is the circle around the position that \<^verbatim>\<open>this.pos\<close> holds, with
  the diameter \<open>2 * size\<close>. The points that the run samples are the points at the drawn
  angles of the circle of radius \<open>size\<close> around twice that position: the segments drawn run
  from the midpoint of the two points of a pass to the second one, and after the run the
  store holds, at the two addresses that the pass allocated, that midpoint (the vector
  \<open>p1\<close>, changed in place) and the second point.
\<close>

theorem C8_circle_at_pos_endpoints_around_doubled_pos:
  assumes "allocated this st"
  shows "rendered this st ! 2
           = Circle (vx (heap st (pos this))) (vy (heap st (pos this))) (size_s this * 2)
       \<and> filter isLine (rendered this st)
           = map (\<lambda>k. Line ((vx (endpoint this st (2 * k)) + vx (endpoint this st (2 * k + 1))) / 2)
                           ((vy (endpoint this st (2 * k)) + vy (endpoint this st (2 * k + 1))) / 2)
                           (vx (endpoint this st (2 * k + 1)))
                           (vy (endpoint this st (2 * k + 1))))
                 [0..<nat \<lceil>iterations this\<rceil>]
       \<and> (\<forall>k < nat \<lceil>iterations this\<rceil>.
             heap (drawSphere this st) (next_addr st + 2 * k + 1) = endpoint this st (2 * k + 1)
           \<and> heap (drawSphere this st) (next_addr st + 2 * k)
               = midpoint (endpoint this st (2 * k)) (endpoint this st (2 * k + 1)))
       \<and> (\<forall>j. endpoint this st j
                 = edgePoint (size_s this) (vx (heap st (pos this)) * 2)
                     (vy (heap st (pos this)) * 2) (rnd st (drawn st + j))
               \<and> (vx (endpoint this st j) - vx (heap st (pos this)) * 2)\<^sup>2
                   + (vy (endpoint this st j) - vy (heap st (pos this)) * 2)\<^sup>2
                   = (size_s this)\<^sup>2)"
proof -
  have c: "rendered this st ! 2
      = Circle (vx (heap st (pos this))) (vy (heap st (pos this))) (size_s this * 2)"
    by (simp add: rendered_eq [OF assms] baseCalls_def)
  have l: "filter isLine (rendered this st)
      = map (\<lambda>k. Line ((vx (endpoint this st (2 * k)) + vx (endpoint this st (2 * k + 1))) / 2)
                      ((vy (endpoint this st (2 * k)) + vy (endpoint this st (2 * k + 1))) / 2)
                      (vx (endpoint this st (2 * k + 1)))
                      (vy (endpoint this st (2 * k + 1))))
            [0..<nat \<lceil>iterations this\<rceil>]"
    by (simp add: lines_rendered [OF assms] chordLine_def midpoint_def p1_at_def p2_at_def)
  have h: "heap (drawSphere this st) (next_addr st + 2 * k + 1) = endpoint this st (2 * k + 1)
      \<and> heap (drawSphere this st) (next_addr st + 2 * k)
          = midpoint (endpoint this st (2 * k)) (endpoint this st (2 * k + 1))"
    if "k < nat \<lceil>iterations this\<rceil>" for k
    using drawSphere_heap [OF assms that] by (simp add: p1_at_def p2_at_def)
  have e: "(vx (endpoint this st j) - vx (heap st (pos this)) * 2)\<^sup>2
      + (vy (endpoint this st j) - vy (heap st (pos this)) * 2)\<^sup>2 = (size_s this)\<^sup>2" for j
    using edgePoint_onEdge [of this st "rnd st (drawn st + j)"]
    by (simp add: onEdge_def endpoint_def)
  show ?thesis
    using c l h e by (simp add: endpoint_def)
qed

text \<open>
  C8, witness: the example sphere with its centre at \<open>(10, 20)\<close>. The circle is drawn around
  \<open>(10, 20)\<close>; the points sampled are \<open>(120, 40)\<close> and \<open>(-80, 40)\<close>, on the circle around
  \<open>(20, 40)\<close>, and the points \<open>(110, 20)\<close> and \<open>(-90, 20)\<close> of the circle around \<open>(10, 20)\<close> are
  not on it.
\<close>

theorem C8_witness:
  "allocated sphere_ex state_ex3 \<and> (0::nat) < nat \<lceil>iterations sphere_ex\<rceil>
   \<and> heap state_ex3 (pos sphere_ex) = \<lparr>vx = 10, vy = 20, vz = 0\<rparr>
   \<and> rendered sphere_ex state_ex3 ! 2 = Circle 10 20 200
   \<and> filter isLine (rendered sphere_ex state_ex3) = [Line 20 40 (- 80) 40]
   \<and> heap (drawSphere sphere_ex state_ex3) 3 = \<lparr>vx = - 80, vy = 40, vz = 0\<rparr>
   \<and> heap (drawSphere sphere_ex state_ex3) 2 = \<lparr>vx = 20, vy = 40, vz = 0\<rparr>
   \<and> endpoint sphere_ex state_ex3 0 = \<lparr>vx = 120, vy = 40, vz = 0\<rparr>
   \<and> onEdge sphere_ex state_ex3 \<lparr>vx = 120, vy = 40, vz = 0\<rparr>
   \<and> onEdge sphere_ex state_ex3 \<lparr>vx = - 80, vy = 40, vz = 0\<rparr>
   \<and> \<not> onEdge sphere_ex state_ex3 \<lparr>vx = 110, vy = 20, vz = 0\<rparr>
   \<and> \<not> onEdge sphere_ex state_ex3 \<lparr>vx = - 90, vy = 20, vz = 0\<rparr>"
proof -
  have h: "allocated sphere_ex state_ex3"
    by (rule allocated_ex3)
  have n: "[0..<nat \<lceil>iterations sphere_ex\<rceil>] = [0]" "(0::nat) < nat \<lceil>iterations sphere_ex\<rceil>"
    by (simp_all add: sphere_ex_def)
  have p: "heap state_ex3 (pos sphere_ex) = \<lparr>vx = 10, vy = 20, vz = 0\<rparr>"
    "size_s sphere_ex = 100" "next_addr state_ex3 = 2"
    by (simp_all add: sphere_ex_def state_ex3_def)
  have o: "onEdge sphere_ex state_ex3 \<lparr>vx = 120, vy = 40, vz = 0\<rparr>"
    "onEdge sphere_ex state_ex3 \<lparr>vx = - 80, vy = 40, vz = 0\<rparr>"
    "\<not> onEdge sphere_ex state_ex3 \<lparr>vx = 110, vy = 20, vz = 0\<rparr>"
    "\<not> onEdge sphere_ex state_ex3 \<lparr>vx = - 90, vy = 20, vz = 0\<rparr>"
    by (simp_all add: onEdge_def p)
  note t = C8_circle_at_pos_endpoints_around_doubled_pos [OF h]
  have c: "rendered sphere_ex state_ex3 ! 2 = Circle 10 20 200"
    using t [THEN conjunct1] by (simp add: p)
  have e: "endpoint sphere_ex state_ex3 (Suc 0) = \<lparr>vx = - 80, vy = 40, vz = 0\<rparr>"
    using endpoint_ex3(2) by simp
  have l: "filter isLine (rendered sphere_ex state_ex3) = [Line 20 40 (- 80) 40]"
    using t [THEN conjunct2, THEN conjunct1] unfolding n by (simp add: endpoint_ex3 e)
  have "heap (drawSphere sphere_ex state_ex3) (next_addr state_ex3 + 2 * 0 + 1)
        = endpoint sphere_ex state_ex3 (2 * 0 + 1)
      \<and> heap (drawSphere sphere_ex state_ex3) (next_addr state_ex3 + 2 * 0)
        = midpoint (endpoint sphere_ex state_ex3 (2 * 0)) (endpoint sphere_ex state_ex3 (2 * 0 + 1))"
    using t [THEN conjunct2, THEN conjunct2, THEN conjunct1] n(2) by blast
  then have s: "heap (drawSphere sphere_ex state_ex3) 3 = \<lparr>vx = - 80, vy = 40, vz = 0\<rparr>"
    "heap (drawSphere sphere_ex state_ex3) 2 = \<lparr>vx = 20, vy = 40, vz = 0\<rparr>"
    by (simp_all add: p endpoint_ex3 e midpoint_def)
  show ?thesis
    using h n(2) p(1) c l s o endpoint_ex3(1) by simp
qed

subsection \<open>C9: the same inputs give the same calls\<close>

text \<open>
  C9. Take two runs, on spheres with the same size, colour and chord count whose positions
  hold the same vector, with the same light position, and with random sources that give
  the same angles on the draws that the run makes. Whatever else differs (the addresses,
  the rest of the store, the calls already on the surface, the later draws), the two runs
  make the same calls on the surface, with the same arguments, in the same order.
\<close>

theorem C9_same_inputs_same_calls:
  assumes "allocated this st" and "allocated that st'"
    and "size_s that = size_s this" and "col that = col this"
    and "iterations that = iterations this"
    and "heap st' (pos that) = heap st (pos this)"
    and "heap st' (lightSource st') = heap st (lightSource st)"
    and "\<forall>j < 2 * nat \<lceil>iterations this\<rceil>. rnd st' (drawn st' + j) = rnd st (drawn st + j)"
  shows "rendered that st' = rendered this st"
proof -
  let ?n = "nat \<lceil>iterations this\<rceil>"
  have e: "endpoint that st' j = endpoint this st j" if "j < 2 * ?n" for j
    using that assms(3,6,8) by (simp add: endpoint_def)
  have c: "chordCalls that st' k = chordCalls this st k" if "k < ?n" for k
  proof -
    have "2 * k < 2 * ?n" "2 * k + 1 < 2 * ?n"
      using that by simp_all
    then have "p1_at that st' k = p1_at this st k" "p2_at that st' k = p2_at this st k"
      using e by (simp_all add: p1_at_def p2_at_def)
    then show ?thesis
      using assms(3,4,7)
      by (simp add: chordCalls_def chordLine_def alpha_1_at_def dLight_at_def lenLine_at_def
          strokeColor_def aLineLen_of_def)
  qed
  have "map (chordCalls that st') [0..<?n] = map (chordCalls this st) [0..<?n]"
    by (rule map_cong) (simp_all add: c)
  then have "runCalls that st' ?n = runCalls this st ?n"
    unfolding runCalls_def by (rule arg_cong)
  moreover have "baseCalls that st' = baseCalls this st"
    using assms(3,6) by (simp add: baseCalls_def)
  ultimately show ?thesis
    using rendered_eq [OF assms(1)] rendered_eq [OF assms(2)] assms(5) by simp
qed

text \<open>
  C9, witness: the example and the second state, which differ in the address of the
  sphere's position, in the store, in the random source outside the two draws and in the
  calls already made.
\<close>

theorem C9_witness:
  "allocated sphere_ex (state_ex 900) \<and> allocated (sphere_ex\<lparr>pos := 7\<rparr>) state_ex2
   \<and> heap state_ex2 7 = heap (state_ex 900) (pos sphere_ex)
   \<and> heap state_ex2 (lightSource state_ex2) = heap (state_ex 900) (lightSource (state_ex 900))
   \<and> 2 * nat \<lceil>iterations sphere_ex\<rceil> = 2
   \<and> rnd state_ex2 (drawn state_ex2 + 0) = rnd (state_ex 900) (drawn (state_ex 900) + 0)
   \<and> rnd state_ex2 (drawn state_ex2 + 1) = rnd (state_ex 900) (drawn (state_ex 900) + 1)
   \<and> rnd state_ex2 \<noteq> rnd (state_ex 900)
   \<and> next_addr state_ex2 \<noteq> next_addr (state_ex 900)
   \<and> canvas state_ex2 \<noteq> canvas (state_ex 900)
   \<and> rendered (sphere_ex\<lparr>pos := 7\<rparr>) state_ex2 = rendered sphere_ex (state_ex 900)"
proof -
  have h1: "allocated sphere_ex (state_ex 900)"
    by (rule allocated_ex)
  have h2: "allocated (sphere_ex\<lparr>pos := 7\<rparr>) state_ex2"
    by (rule allocated_ex2)
  have h3: "heap state_ex2 (pos (sphere_ex\<lparr>pos := 7\<rparr>)) = heap (state_ex 900) (pos sphere_ex)"
    by (simp add: state_ex2_def state_ex_def sphere_ex_def)
  have h4: "heap state_ex2 (lightSource state_ex2)
      = heap (state_ex 900) (lightSource (state_ex 900))"
    by (simp add: state_ex2_def state_ex_def)
  have h5: "\<forall>j < 2 * nat \<lceil>iterations sphere_ex\<rceil>.
      rnd state_ex2 (drawn state_ex2 + j) = rnd (state_ex 900) (drawn (state_ex 900) + j)"
    by (auto simp add: state_ex2_def state_ex_def sphere_ex_def)
  have "rnd state_ex2 0 \<noteq> rnd (state_ex 900) 0"
    by (simp add: state_ex2_def state_ex_def)
  then have d1: "rnd state_ex2 \<noteq> rnd (state_ex 900)"
    by metis
  have d2: "next_addr state_ex2 \<noteq> next_addr (state_ex 900)"
    "canvas state_ex2 \<noteq> canvas (state_ex 900)"
    by (simp_all add: state_ex2_def state_ex_def)
  have "rendered (sphere_ex\<lparr>pos := 7\<rparr>) state_ex2 = rendered sphere_ex (state_ex 900)"
    using C9_same_inputs_same_calls [OF h1 h2 _ _ _ h3 h4 h5] by simp
  moreover have "2 * nat \<lceil>iterations sphere_ex\<rceil> = 2"
    by (simp add: sphere_ex_def)
  moreover have "rnd state_ex2 (drawn state_ex2 + 0) = rnd (state_ex 900) (drawn (state_ex 900) + 0)"
    "rnd state_ex2 (drawn state_ex2 + 1) = rnd (state_ex 900) (drawn (state_ex 900) + 1)"
    by (simp_all add: state_ex2_def state_ex_def)
  ultimately show ?thesis
    using h1 h2 h3 h4 d1 d2 by simp
qed

subsection \<open>C10: a run changes no object that existed before\<close>

text \<open>
  C10. The method assigns to no field of \<^verbatim>\<open>this\<close> and not to \<^verbatim>\<open>lightSource\<close>; the objects it
  could change through a reference are the vectors. After a run the vector of \<^verbatim>\<open>this.pos\<close>
  and the vector of \<^verbatim>\<open>lightSource\<close> hold the values they held before, \<^verbatim>\<open>lightSource\<close>
  refers to the same vector, and so does every vector that existed before the run: the
  vectors that \<^verbatim>\<open>add\<close> and \<^verbatim>\<open>div\<close> change are the ones sampled during the run.
\<close>

theorem C10_render_changes_no_existing_object:
  assumes "allocated this st"
  shows "heap (drawSphere this st) (pos this) = heap st (pos this)
       \<and> heap (drawSphere this st) (lightSource st) = heap st (lightSource st)
       \<and> lightSource (drawSphere this st) = lightSource st
       \<and> (\<forall>p < next_addr st. heap (drawSphere this st) p = heap st p)"
  using funpow_chord [of this "base this st" "nat \<lceil>iterations this\<rceil>"] assms
  by (simp add: drawSphere_funpow allocated_def)

text \<open>C10, witness: the example, with the centre at the origin and the light at \<open>(900, 0)\<close>.\<close>

theorem C10_witness:
  "allocated sphere_ex (state_ex 900)
   \<and> heap (drawSphere sphere_ex (state_ex 900)) (pos sphere_ex) = \<lparr>vx = 0, vy = 0, vz = 0\<rparr>
   \<and> heap (drawSphere sphere_ex (state_ex 900)) (lightSource (state_ex 900))
       = \<lparr>vx = 900, vy = 0, vz = 0\<rparr>
   \<and> lightSource (drawSphere sphere_ex (state_ex 900)) = 1"
proof -
  have h: "allocated sphere_ex (state_ex 900)"
    by (rule allocated_ex)
  show ?thesis
    using h C10_render_changes_no_existing_object [OF h]
    by (simp add: light_ex) (simp add: sphere_ex_def state_ex_def origin_def)
qed

end
